theory Spec2Isabelle
  imports Complex_Main
begin

section \<open>The results page of WriteHERE: polling a generation job\<close>

text \<open>
  The page component \<open>ResultsPage\<close> keeps the client-side view of one generation job in
  React state variables, polls the backend with the asynchronous routine \<open>fetchStatus\<close>
  (called once when the page mounts and then by \<open>setInterval\<close>), and offers a stop button
  whose handler is \<open>handleStopGeneration\<close>.

  JavaScript runs one piece of code at a time: an asynchronous routine runs until its
  next \<open>await\<close>, and the code after the \<open>await\<close> runs as a separate piece once the
  awaited promise has settled. Each such piece of \<open>fetchStatus\<close> is a function below; the
  order in which promises settle, the timer fires and the user clicks is an event list.
\<close>

subsection \<open>Values exchanged with the backend\<close>

text \<open>A promise settles by resolving with a value or by rejecting with an error, of
  which the page reads the optional \<open>message\<close> only.\<close>

datatype 'a outcome = Resolved 'a | Rejected "string option"

text \<open>The object \<open>getGenerationStatus\<close> resolves with. An absent property is \<open>None\<close>.\<close>

record status_payload =
  sp_status :: string
  sp_elapsedTime :: "real option"
  sp_model :: "string option"
  sp_searchEngine :: "string option"
  sp_prompt :: "string option"
  sp_error :: "string option"

text \<open>The object \<open>getGenerationResult\<close> resolves with.\<close>

record result_payload =
  rp_result :: "string option"
  rp_model :: "string option"
  rp_searchEngine :: "string option"
  rp_prompt :: "string option"

text \<open>The four calls of \<open>utils/api\<close> the page makes, as entries of a log.\<close>

datatype api_call = ReloadTasks | GetGenerationStatus | GetGenerationResult | StopTask

text \<open>JavaScript truthiness of an optional string (absent and empty are falsy) and of
  an optional number (absent and zero are falsy), and the idiom \<open>v || d\<close>.\<close>

fun truthy :: "string option \<Rightarrow> bool" where
  "truthy None = False"
| "truthy (Some x) = (x \<noteq> [])"

fun truthy_num :: "real option \<Rightarrow> bool" where
  "truthy_num None = False"
| "truthy_num (Some x) = (x \<noteq> 0)"

fun or_else :: "string option \<Rightarrow> string \<Rightarrow> string" where
  "or_else None d = d"
| "or_else (Some x) d = (if x \<noteq> [] then x else d)"

text \<open>\<open>Math.round\<close> rounds to the nearest integer, halves upwards.\<close>

definition math_round :: "real \<Rightarrow> int" where
  "math_round x = \<lfloor>x + 1 / 2\<rfloor>"

subsection \<open>The state of the page\<close>

text \<open>\<open>generationDetails\<close>, with the keys of \<open>defaultGenerationDetails\<close> and \<open>searchEngine\<close>.\<close>

record details =
  d_prompt :: "string option"
  d_model :: "string option"
  d_type :: "string option"
  d_status :: "string option"
  d_searchEngine :: "string option"

definition defaultGenerationDetails :: details where
  "defaultGenerationDetails =
     \<lparr>d_prompt = Some ''Loading prompt...'', d_model = Some ''Loading model...'',
      d_type = Some ''unknown'', d_status = Some ''unknown'', d_searchEngine = None\<rparr>"

text \<open>Where a running \<open>fetchStatus\<close> call is suspended: at \<open>await reloadTasks()\<close>, at
  \<open>await getGenerationStatus(id)\<close>, at \<open>await getGenerationResult(id)\<close> of the
  \<open>completed\<close> branch, or at \<open>await getGenerationResult(id)\<close> of the \<open>catch\<close> block, which
  still holds the message of the error it caught.\<close>

datatype suspended = AwaitReload | AwaitStatus | AwaitResult | AwaitDirect "string option"

text \<open>
  The React state variables of the page, the two variables \<open>pollCount\<close> and \<open>pollInterval\<close>
  of the polling effect (\<open>pollInterval\<close> is \<open>True\<close> while the interval timer is set), and
  what is outside the page: the log of calls made to the backend, the console, the
  \<open>fetchStatus\<close> calls started so far (\<open>None\<close> once a call has returned) and the number of
  \<open>stopTask\<close> promises not yet settled. \<open>activeTab\<close> and \<open>copySuccess\<close> are only read and
  written by the result view and are left out.
\<close>

record page =
  result :: "string option"
  loading :: bool
  error :: string
  generationStatus :: string
  progress :: real
  elapsedTime :: int
  stopConfirmOpen :: bool
  stopInProgress :: bool
  generationDetails :: details
  pollCount :: nat
  pollInterval :: bool
  network :: "api_call list"
  console :: "string list"
  polls :: "suspended option list"
  stopsInFlight :: nat

definition call :: "api_call \<Rightarrow> page \<Rightarrow> page" where
  "call c s = s\<lparr>network := network s @ [c]\<rparr>"

definition console_log :: "string \<Rightarrow> page \<Rightarrow> page" where
  "console_log m s = s\<lparr>console := console s @ [m]\<rparr>"

subsection \<open>\<open>fetchStatus\<close>\<close>

text \<open>The simulated progress: \<open>Math.min(10 + 80 * (pollCount / 60), 90)\<close>. JavaScript
  numbers are taken as exact reals.\<close>

definition simulatedProgress :: "nat \<Rightarrow> real" where
  "simulatedProgress n = min (10 + 80 * (real n / 60)) 90"

text \<open>The same expression when every division, product and sum is rounded to a
  representable number by \<open>rnd\<close>, as the arithmetic of doubles does; \<open>pollCount\<close> and
  the constants are representable, and \<open>Math.min\<close> does not round.\<close>

definition simulatedProgress_rounded :: "(real \<Rightarrow> real) \<Rightarrow> nat \<Rightarrow> real" where
  "simulatedProgress_rounded rnd n = min (rnd (10 + rnd (80 * rnd (real n / 60)))) 90"

text \<open>The three updates of \<open>generationDetails\<close> that follow a status payload and a
  result payload alike: the model, the search engine, the prompt.\<close>

definition updateDetails ::
  "string option \<Rightarrow> string option \<Rightarrow> string option \<Rightarrow> details \<Rightarrow> details" where
  "updateDetails model searchEngine prompt prev =
     (let d1 = (if truthy model \<and> model \<noteq> Some ''unknown'' then prev\<lparr>d_model := model\<rparr> else prev);
          d2 = (if truthy searchEngine then d1\<lparr>d_searchEngine := searchEngine\<rparr> else d1)
      in if truthy prompt then d2\<lparr>d_prompt := prompt\<rparr> else d2)"

text \<open>A result payload is used only if it is there and its \<open>result\<close> is truthy.\<close>

fun usable :: "result_payload option \<Rightarrow> bool" where
  "usable None = False"
| "usable (Some r) = truthy (rp_result r)"

text \<open>From the call of \<open>fetchStatus\<close> to its first \<open>await\<close>.\<close>

definition fetchStatus :: "page \<Rightarrow> page \<times> suspended option" where
  "fetchStatus s =
     (let s1 = s\<lparr>loading := True\<rparr>
      in if pollCount s1 = 0 then (call ReloadTasks s1, Some AwaitReload)
         else (call GetGenerationStatus s1, Some AwaitStatus))"

text \<open>After \<open>await reloadTasks()\<close>: a rejection is caught and logged, and the status is
  requested.\<close>

definition after_reload :: "unit outcome \<Rightarrow> page \<Rightarrow> page \<times> suspended option" where
  "after_reload r s =
     (let s1 = (case r of Resolved _ \<Rightarrow> s | Rejected _ \<Rightarrow> console_log ''Failed to reload tasks:'' s)
      in (call GetGenerationStatus s1, Some AwaitStatus))"

text \<open>The end of the \<open>catch\<close> block: the error message, the timer cleared.\<close>

definition give_up :: "string option \<Rightarrow> page \<Rightarrow> page" where
  "give_up message s =
     s\<lparr>error := ''Error checking generation status: '' @ or_else message ''Unknown error'',
       pollInterval := False, loading := False\<rparr>"

text \<open>The \<open>catch\<close> block of \<open>fetchStatus\<close> up to its \<open>await\<close>: while \<open>pollCount\<close> is 0 the
  result is requested directly.\<close>

definition catch_block :: "string option \<Rightarrow> page \<Rightarrow> page \<times> suspended option" where
  "catch_block message s =
     (let s1 = console_log ''Error polling status:'' s
      in if pollCount s1 = 0 then (call GetGenerationResult s1, Some (AwaitDirect message))
         else (give_up message s1, None))"

text \<open>After \<open>await getGenerationStatus(id)\<close>.\<close>

definition after_status ::
  "status_payload option outcome \<Rightarrow> page \<Rightarrow> page \<times> suspended option" where
  "after_status r s =
     (case r of
        Rejected message \<Rightarrow> catch_block message s
      | Resolved None \<Rightarrow> (s, None)
      | Resolved (Some statusData) \<Rightarrow>
          (let s1 = s\<lparr>generationStatus := sp_status statusData\<rparr>;
               s2 = (if truthy_num (sp_elapsedTime statusData)
                     then s1\<lparr>elapsedTime := math_round (the (sp_elapsedTime statusData))\<rparr>
                     else s1);
               s3 = s2\<lparr>generationDetails :=
                      updateDetails (sp_model statusData) (sp_searchEngine statusData)
                        (sp_prompt statusData) (generationDetails s2)\<rparr>
           in if sp_status statusData = ''completed''
              then (call GetGenerationResult (s3\<lparr>progress := 100\<rparr>), Some AwaitResult)
              else if sp_status statusData = ''error''
              then (s3\<lparr>error := or_else (sp_error statusData)
                                   ''An error occurred during generation'',
                       pollInterval := False, loading := False\<rparr>, None)
              else if sp_status statusData = ''stopped''
              then (s3\<lparr>error := ''Task has been stopped by user request.'',
                       pollInterval := False, loading := False\<rparr>, None)
              else (s3\<lparr>pollCount := pollCount s3 + 1,
                       progress := simulatedProgress (pollCount s3 + 1)\<rparr>, None)))"

text \<open>After \<open>await getGenerationResult(id)\<close> in the \<open>completed\<close> branch. The \<open>await\<close> is
  inside the \<open>try\<close>, so a rejection goes to the \<open>catch\<close> block.\<close>

definition after_result ::
  "result_payload option outcome \<Rightarrow> page \<Rightarrow> page \<times> suspended option" where
  "after_result r s =
     (case r of
        Rejected message \<Rightarrow> catch_block message s
      | Resolved resultData \<Rightarrow>
          (if usable resultData
           then (let rd = the resultData;
                     s1 = s\<lparr>result := rp_result rd\<rparr>;
                     s2 = s1\<lparr>generationDetails :=
                            updateDetails (rp_model rd) (rp_searchEngine rd) (rp_prompt rd)
                              (generationDetails s1)\<rparr>
                 in (s2\<lparr>pollInterval := False, loading := False\<rparr>, None))
           else (s, None)))"

text \<open>After \<open>await getGenerationResult(id)\<close> in the \<open>catch\<close> block, which caught an error
  with the given message before.\<close>

definition after_direct ::
  "string option \<Rightarrow> result_payload option outcome \<Rightarrow> page \<Rightarrow> page \<times> suspended option" where
  "after_direct message r s =
     (case r of
        Rejected _ \<Rightarrow> (give_up message (console_log ''Error fetching result directly:'' s), None)
      | Resolved resultData \<Rightarrow>
          (if usable resultData
           then (let rd = the resultData;
                     s1 = s\<lparr>result := rp_result rd, generationStatus := ''completed'',
                            progress := 100\<rparr>;
                     s2 = s1\<lparr>generationDetails :=
                            updateDetails (rp_model rd) (rp_searchEngine rd) (rp_prompt rd)
                              (generationDetails s1)\<rparr>
                 in (s2\<lparr>pollInterval := False, loading := False\<rparr>, None))
           else (give_up message s, None)))"

subsection \<open>\<open>handleStopGeneration\<close>\<close>

text \<open>The handler up to the call of \<open>stopTask\<close>, and the \<open>then\<close>/\<open>catch\<close>/\<open>finally\<close>
  callbacks once the promise has settled. A template literal prints an absent message
  as \<open>undefined\<close>.\<close>

definition handleStopGeneration :: "page \<Rightarrow> page" where
  "handleStopGeneration s =
     (call StopTask (s\<lparr>stopInProgress := True\<rparr>))\<lparr>stopsInFlight := stopsInFlight s + 1\<rparr>"

definition after_stop :: "unit outcome \<Rightarrow> page \<Rightarrow> page" where
  "after_stop r s =
     (let s1 = (case r of
                  Resolved _ \<Rightarrow> s\<lparr>generationStatus := ''stopped'',
                                   error := ''Task has been stopped by user request.''\<rparr>
                | Rejected message \<Rightarrow>
                    s\<lparr>error := ''Failed to stop task: '' @
                                  (case message of None \<Rightarrow> ''undefined'' | Some m \<Rightarrow> m)\<rparr>)
      in s1\<lparr>stopConfirmOpen := False, stopInProgress := False\<rparr>)"

subsection \<open>What the page shows\<close>

text \<open>The three returns of the component: the progress screen with the stop dialog,
  the error alert, the result view.\<close>

datatype screen = ProgressScreen | ErrorScreen | ResultScreen

definition render :: "page \<Rightarrow> screen" where
  "render s =
     (if loading s \<and> generationStatus s \<noteq> ''completed'' then ProgressScreen
      else if error s \<noteq> [] then ErrorScreen
      else ResultScreen)"

subsection \<open>Events\<close>

text \<open>
  Mounting the page runs the polling effect: \<open>pollCount = 0\<close>, a first call of
  \<open>fetchStatus\<close>, which runs to its first \<open>await\<close>, and then \<open>setInterval\<close>. The argument is
  \<open>location.state\<close>.
\<close>

definition start :: "page \<Rightarrow> page" where
  "start s = (case fetchStatus s of (s1, k) \<Rightarrow> s1\<lparr>polls := polls s1 @ [k]\<rparr>)"

definition mount :: "details option \<Rightarrow> page" where
  "mount location_state =
     (start
        \<lparr>result = None, loading = True, error = [], generationStatus = ''generating'',
         progress = 0, elapsedTime = 0, stopConfirmOpen = False, stopInProgress = False,
         generationDetails =
           (case location_state of None \<Rightarrow> defaultGenerationDetails | Some d \<Rightarrow> d),
         pollCount = 0, pollInterval = False, network = [], console = [], polls = [],
         stopsInFlight = 0\<rparr>)\<lparr>pollInterval := True\<rparr>"

text \<open>What a backend call of a suspended \<open>fetchStatus\<close> settles with.\<close>

datatype response =
    Reload "unit outcome"
  | Status "status_payload option outcome"
  | Result "result_payload option outcome"

text \<open>
  The events of a session: the interval timer fires; the pending call of the \<open>i\<close>-th
  \<open>fetchStatus\<close> settles; the user presses the stop button of the progress screen, closes
  the dialog, or presses the dialog's confirm button (rendered on the progress screen only,
  visible while the dialog is open, and disabled while \<open>stopInProgress\<close>); a \<open>stopTask\<close>
  promise settles. An event that cannot happen in a state leaves it as it is.
\<close>

datatype event =
    Tick
  | Settle nat response
  | OpenStopDialog
  | CloseStopDialog
  | ConfirmStop
  | StopSettles "unit outcome"

definition resume :: "nat \<Rightarrow> page \<times> suspended option \<Rightarrow> page" where
  "resume i r = (case r of (s1, k) \<Rightarrow> s1\<lparr>polls := (polls s1)[i := k]\<rparr>)"

definition settle :: "nat \<Rightarrow> response \<Rightarrow> page \<Rightarrow> page" where
  "settle i r s =
     (if i < length (polls s)
      then (case (polls s ! i, r) of
              (Some AwaitReload, Reload x) \<Rightarrow> resume i (after_reload x s)
            | (Some AwaitStatus, Status x) \<Rightarrow> resume i (after_status x s)
            | (Some AwaitResult, Result x) \<Rightarrow> resume i (after_result x s)
            | (Some (AwaitDirect message), Result x) \<Rightarrow> resume i (after_direct message x s)
            | _ \<Rightarrow> s)
      else s)"

fun step :: "event \<Rightarrow> page \<Rightarrow> page" where
  "step Tick s = (if pollInterval s then start s else s)"
| "step (Settle i r) s = settle i r s"
| "step OpenStopDialog s =
     (if render s = ProgressScreen then s\<lparr>stopConfirmOpen := True\<rparr> else s)"
| "step CloseStopDialog s =
     (if render s = ProgressScreen \<and> stopConfirmOpen s then s\<lparr>stopConfirmOpen := False\<rparr>
      else s)"
| "step ConfirmStop s =
     (if render s = ProgressScreen \<and> stopConfirmOpen s \<and> \<not> stopInProgress s
      then handleStopGeneration s else s)"
| "step (StopSettles r) s =
     (if 0 < stopsInFlight s then after_stop r (s\<lparr>stopsInFlight := stopsInFlight s - 1\<rparr>)
      else s)"

fun run :: "event list \<Rightarrow> page \<Rightarrow> page" where
  "run [] s = s"
| "run (e # es) s = run es (step e s)"

text \<open>The backend calls that have been made and have not settled.\<close>

definition outstanding :: "page \<Rightarrow> nat" where
  "outstanding s = length (filter (\<lambda>k. k \<noteq> None) (polls s)) + stopsInFlight s"

subsection \<open>Notions used in the statements\<close>

text \<open>The three values of \<open>generationStatus\<close> that \<open>fetchStatus\<close> tests for; with any
  other status it takes the branch commented "still processing".\<close>

definition final_status :: "string \<Rightarrow> bool" where
  "final_status st = (st = ''completed'' \<or> st = ''error'' \<or> st = ''stopped'')"

text \<open>The progress shown is at most 90 unless the status is one of the three.\<close>

definition progress_ok :: "page \<Rightarrow> bool" where
  "progress_ok s = (final_status (generationStatus s) \<or> progress s \<le> 90)"

text \<open>
  What one piece of code can do to the progress, the status and the error message
  together: leave the progress alone (the status is kept or becomes \<open>error\<close> or
  \<open>stopped\<close>); set the progress to 100 and the status to \<open>completed\<close>; or set the progress
  to an estimate and the status to one that is not final.
\<close>

definition effect :: "page \<Rightarrow> page \<Rightarrow> bool" where
  "effect s t =
     (progress t = progress s \<and>
        (generationStatus t = generationStatus s \<or> generationStatus t = ''error''
         \<or> generationStatus t = ''stopped'')
      \<or> progress t = 100 \<and> generationStatus t = ''completed'' \<and> error t = error s
      \<or> progress t \<le> 90 \<and> \<not> final_status (generationStatus t) \<and> error t = error s)"



text \<open>The events that settle a \<open>stopTask\<close> promise, and the number of \<open>stopTask\<close> calls
  made so far.\<close>

fun stop_settles :: "event \<Rightarrow> bool" where
  "stop_settles (StopSettles r) = True"
| "stop_settles _ = False"

definition stop_calls :: "page \<Rightarrow> nat" where
  "stop_calls s = count_list (network s) StopTask"

text \<open>Payloads for the examples: a status payload with its \<open>status\<close> only, a result
  payload with at most its \<open>result\<close>.\<close>

definition status_only :: "string \<Rightarrow> status_payload" where
  "status_only st =
     \<lparr>sp_status = st, sp_elapsedTime = None, sp_model = None, sp_searchEngine = None,
      sp_prompt = None, sp_error = None\<rparr>"

definition result_only :: "string option \<Rightarrow> result_payload" where
  "result_only r =
     \<lparr>rp_result = r, rp_model = None, rp_searchEngine = None, rp_prompt = None\<rparr>"

text \<open>The page once the first \<open>reloadTasks\<close> has resolved: the first \<open>fetchStatus\<close> waits
  for the status.\<close>

definition awaiting_status :: page where
  "awaiting_status = run [Settle 0 (Reload (Resolved ()))] (mount None)"



section \<open>Basic facts about the pieces of code\<close>

lemmas piece_defs = fetchStatus_def after_reload_def after_status_def after_result_def
  after_direct_def catch_block_def give_up_def call_def console_log_def Let_def

lemma simulatedProgress_le_90: "simulatedProgress n \<le> 90"
  by (simp add: simulatedProgress_def)

lemma generationStatus_after_status:
  "generationStatus (fst (after_status (Resolved (Some sd)) s)) = sp_status sd"
  by (simp add: piece_defs)

subsection \<open>The pieces of \<open>fetchStatus\<close> leave the bookkeeping of calls alone\<close>

lemma polls_after_reload: "polls (fst (after_reload r s)) = polls s"
  by (simp add: piece_defs split: outcome.splits)

lemma polls_after_status: "polls (fst (after_status r s)) = polls s"
  by (simp add: piece_defs split: outcome.splits option.splits)

lemma polls_after_result: "polls (fst (after_result r s)) = polls s"
  by (simp add: piece_defs split: outcome.splits option.splits)

lemma polls_after_direct: "polls (fst (after_direct m r s)) = polls s"
  by (simp add: piece_defs split: outcome.splits option.splits)

lemma stopsInFlight_after_reload: "stopsInFlight (fst (after_reload r s)) = stopsInFlight s"
  by (simp add: piece_defs split: outcome.splits)

lemma stopsInFlight_after_status: "stopsInFlight (fst (after_status r s)) = stopsInFlight s"
  by (simp add: piece_defs split: outcome.splits option.splits)

lemma stopsInFlight_after_result: "stopsInFlight (fst (after_result r s)) = stopsInFlight s"
  by (simp add: piece_defs split: outcome.splits option.splits)

lemma stopsInFlight_after_direct: "stopsInFlight (fst (after_direct m r s)) = stopsInFlight s"
  by (simp add: piece_defs split: outcome.splits option.splits)

lemma run_append: "run (xs @ ys) s = run ys (run xs s)"
  by (induction xs arbitrary: s) simp_all

subsection \<open>Every piece has one of the three effects\<close>

lemma effect_refl: "effect s s"
  by (simp add: effect_def)

lemma effect_fetchStatus: "effect s (fst (fetchStatus s))"
  by (simp add: effect_def piece_defs)

lemma effect_after_reload: "effect s (fst (after_reload r s))"
  by (simp add: effect_def piece_defs split: outcome.splits)

lemma effect_after_status: "effect s (fst (after_status r s))"
  by (simp add: effect_def piece_defs final_status_def simulatedProgress_le_90
      split: outcome.splits option.splits)

lemma effect_after_result: "effect s (fst (after_result r s))"
  by (simp add: effect_def piece_defs split: outcome.splits option.splits)

lemma effect_after_direct: "effect s (fst (after_direct m r s))"
  by (simp add: effect_def piece_defs split: outcome.splits option.splits)

lemma effect_resume: "effect s (fst p) \<Longrightarrow> effect s (resume i p)"
  by (cases p) (simp add: effect_def resume_def)

lemma effect_settle: "effect s (settle i r s)"
  unfolding settle_def
  by (auto split: option.splits suspended.splits response.splits
      intro!: effect_resume effect_after_reload effect_after_status
        effect_after_result effect_after_direct effect_refl)

lemma effect_start: "effect s (start s)"
  by (simp add: effect_def start_def piece_defs)

lemma effect_step: "effect s (step e s)"
proof (cases e)
  case Tick
  then show ?thesis by (simp add: effect_start effect_refl)
next
  case (Settle i r)
  then show ?thesis by (simp add: effect_settle)
next
  case OpenStopDialog
  then show ?thesis by (simp add: effect_def)
next
  case CloseStopDialog
  then show ?thesis by (simp add: effect_def)
next
  case ConfirmStop
  then show ?thesis by (simp add: effect_def handleStopGeneration_def call_def)
next
  case (StopSettles r)
  then show ?thesis by (simp add: effect_def after_stop_def split: outcome.splits)
qed

subsection \<open>The bound on the progress holds in every reachable state\<close>

lemma progress_ok_step: "progress_ok s \<Longrightarrow> progress_ok (step e s)"
  using effect_step [of s e] by (auto simp: progress_ok_def effect_def final_status_def)

lemma progress_ok_run: "progress_ok s \<Longrightarrow> progress_ok (run es s)"
  by (induction es arbitrary: s) (simp_all add: progress_ok_step)

lemma progress_ok_mount: "progress_ok (mount d)"
  by (simp add: mount_def start_def progress_ok_def piece_defs)

subsection \<open>Nothing happens in a quiescent state\<close>


section \<open>The progress estimate\<close>

text \<open>
  C6. The simulated progress is the function \<open>min(10 + 80 * n / 60, 90)\<close> of the poll count
  alone; it never decreases as the count grows and it stays below 100.
\<close>

theorem simulatedProgress_monotone_bounded:
  "simulatedProgress n = min (10 + 80 * real n / 60) 90
   \<and> simulatedProgress n \<le> simulatedProgress (n + 1)
   \<and> simulatedProgress n < 100"
  by (simp add: simulatedProgress_def min_def)

text \<open>Rounding does not change this: with any rounding that is monotone, as rounding to
  the nearest double is, the estimate still never decreases and stays below 100.\<close>

lemma simulatedProgress_rounded_monotone_bounded:
  assumes "mono rnd"
  shows "simulatedProgress_rounded rnd n \<le> simulatedProgress_rounded rnd (n + 1)
    \<and> simulatedProgress_rounded rnd n < 100"
proof -
  have "real n / 60 \<le> real (n + 1) / 60" by simp
  then have "rnd (real n / 60) \<le> rnd (real (n + 1) / 60)"
    using assms by (simp add: monoD)
  then have "10 + rnd (80 * rnd (real n / 60)) \<le> 10 + rnd (80 * rnd (real (n + 1) / 60))"
    using assms by (simp add: monoD)
  then have "rnd (10 + rnd (80 * rnd (real n / 60)))
      \<le> rnd (10 + rnd (80 * rnd (real (n + 1) / 60)))"
    using assms by (rule monoD [rotated])
  then show ?thesis by (simp add: simulatedProgress_rounded_def min_def)
qed

lemma simulatedProgress_rounded_exact: "simulatedProgress_rounded (\<lambda>x. x) n = simulatedProgress n"
  by (simp add: simulatedProgress_rounded_def simulatedProgress_def)


section \<open>Progress 100 and the status \<open>completed\<close>\<close>

text \<open>
  C5, as the specification states it, fails. The status payload says \<open>completed\<close> and the
  result payload has no \<open>result\<close>: the progress is 100 although the page has not stored
  a result and goes on polling (the timer is set, \<open>loading\<close> is on). When the second
  poll finds the job \<open>generating\<close>, the progress falls from 100 to 34/3.
\<close>

theorem progress_100_while_polling_counterexample:
  "progress
     (run [Settle 0 (Reload (Resolved ())),
           Settle 0 (Status (Resolved (Some (status_only ''completed'')))),
           Settle 0 (Result (Resolved (Some (result_only None))))] (mount None)) = 100
   \<and> result
     (run [Settle 0 (Reload (Resolved ())),
           Settle 0 (Status (Resolved (Some (status_only ''completed'')))),
           Settle 0 (Result (Resolved (Some (result_only None))))] (mount None)) = None
   \<and> pollInterval
     (run [Settle 0 (Reload (Resolved ())),
           Settle 0 (Status (Resolved (Some (status_only ''completed'')))),
           Settle 0 (Result (Resolved (Some (result_only None))))] (mount None))
   \<and> loading
     (run [Settle 0 (Reload (Resolved ())),
           Settle 0 (Status (Resolved (Some (status_only ''completed'')))),
           Settle 0 (Result (Resolved (Some (result_only None))))] (mount None))
   \<and> polls
     (step Tick
       (run [Settle 0 (Reload (Resolved ())),
             Settle 0 (Status (Resolved (Some (status_only ''completed'')))),
             Settle 0 (Result (Resolved (Some (result_only None))))] (mount None)))
     = [None, Some AwaitReload]
   \<and> progress
     (run [Settle 0 (Reload (Resolved ())),
           Settle 0 (Status (Resolved (Some (status_only ''completed'')))),
           Settle 0 (Result (Resolved (Some (result_only None)))),
           Tick, Settle 1 (Reload (Resolved ())),
           Settle 1 (Status (Resolved (Some (status_only ''generating''))))] (mount None))
     = 34 / 3"
  by code_simp

text \<open>
  C5, amended. In every state the page can reach, under any order of timer ticks, settled
  promises and clicks, the progress is below 100 unless \<open>generationStatus\<close> is \<open>completed\<close>,
  \<open>error\<close> or \<open>stopped\<close>. A piece of code that brings the progress to 100 sets the status to
  \<open>completed\<close>, and a piece that changes the status to \<open>completed\<close> sets the progress to 100:
  the page sets both when the status payload says \<open>completed\<close>, before it asks for the
  result and whether or not a usable result follows, and when the direct fetch of the
  \<open>catch\<close> block succeeds. A piece that ends with the status \<open>error\<close> or \<open>stopped\<close>, or that
  changes the error message, leaves the progress as it was.
\<close>

theorem progress_100_only_with_completed:
  "(\<not> final_status (generationStatus (run es (mount d))) \<longrightarrow> progress (run es (mount d)) < 100)
   \<and> (progress (step e1 s1) = 100 \<and> progress s1 \<noteq> 100
        \<longrightarrow> generationStatus (step e1 s1) = ''completed'')
   \<and> (generationStatus (step e2 s2) = ''completed'' \<and> generationStatus s2 \<noteq> ''completed''
        \<longrightarrow> progress (step e2 s2) = 100)
   \<and> (generationStatus (step e3 s3) = ''error'' \<or> generationStatus (step e3 s3) = ''stopped''
        \<longrightarrow> progress (step e3 s3) = progress s3)
   \<and> (error (step e4 s4) \<noteq> error s4 \<longrightarrow> progress (step e4 s4) = progress s4)"
proof -
  have a: "\<not> final_status (generationStatus (run es (mount d)))
             \<longrightarrow> progress (run es (mount d)) < 100"
    using progress_ok_run [OF progress_ok_mount, of es d] by (auto simp: progress_ok_def)
  have b: "progress (step e1 s1) = 100 \<and> progress s1 \<noteq> 100
             \<longrightarrow> generationStatus (step e1 s1) = ''completed''"
    using effect_step [of s1 e1] by (auto simp: effect_def)
  have c: "generationStatus (step e2 s2) = ''completed'' \<and> generationStatus s2 \<noteq> ''completed''
             \<longrightarrow> progress (step e2 s2) = 100"
    using effect_step [of s2 e2] by (auto simp: effect_def final_status_def)
  have d: "generationStatus (step e3 s3) = ''error'' \<or> generationStatus (step e3 s3) = ''stopped''
             \<longrightarrow> progress (step e3 s3) = progress s3"
    using effect_step [of s3 e3] by (auto simp: effect_def final_status_def)
  have e: "error (step e4 s4) \<noteq> error s4 \<longrightarrow> progress (step e4 s4) = progress s4"
    using effect_step [of s4 e4] by (auto simp: effect_def)
  from a b c d e show ?thesis by blast
qed

theorem progress_100_only_with_completed_witness:
  "\<not> final_status (generationStatus
        (run [Settle 0 (Reload (Resolved ())),
              Settle 0 (Status (Resolved (Some (status_only ''generating''))))] (mount None)))
   \<and> progress
        (run [Settle 0 (Reload (Resolved ())),
              Settle 0 (Status (Resolved (Some (status_only ''generating''))))] (mount None))
       < 100
   \<and> progress (step (Settle 0 (Status (Resolved (Some (status_only ''completed''))))) awaiting_status)
       = 100
   \<and> progress awaiting_status \<noteq> 100
   \<and> generationStatus
        (step (Settle 0 (Status (Resolved (Some (status_only ''completed''))))) awaiting_status)
       = ''completed''
   \<and> generationStatus awaiting_status \<noteq> ''completed''
   \<and> generationStatus
        (step (Settle 0 (Status (Resolved (Some (status_only ''error''))))) awaiting_status)
       = ''error''
   \<and> error (step (Settle 0 (Status (Resolved (Some (status_only ''error''))))) awaiting_status)
       \<noteq> error awaiting_status
   \<and> progress (step (Settle 0 (Status (Resolved (Some (status_only ''error''))))) awaiting_status)
       = progress awaiting_status"
proof -
  let ?es = "[Settle 0 (Reload (Resolved ())),
              Settle 0 (Status (Resolved (Some (status_only ''generating''))))]"
  let ?c = "Settle 0 (Status (Resolved (Some (status_only ''completed''))))"
  let ?e = "Settle 0 (Status (Resolved (Some (status_only ''error''))))"
  have h0: "\<not> final_status (generationStatus (run ?es (mount None)))" by code_simp
  have h1: "progress (step ?c awaiting_status) = 100" by code_simp
  have h2: "progress awaiting_status \<noteq> 100" by code_simp
  have h3: "generationStatus awaiting_status \<noteq> ''completed''" by code_simp
  have h4: "generationStatus (step ?e awaiting_status) = ''error''" by code_simp
  have h5: "error (step ?e awaiting_status) \<noteq> error awaiting_status" by code_simp
  show ?thesis
    using h0 h1 h2 h3 h4 h5
      progress_100_only_with_completed [of ?es None ?c awaiting_status ?c awaiting_status
        ?e awaiting_status ?e awaiting_status]
    by blast
qed

section \<open>A successful stop and a poll that resolves after it\<close>

text \<open>
  C1, as the specification states it, fails. The first \<open>fetchStatus\<close> waits for the
  status; the user confirms the stop and \<open>stopTask\<close> resolves, which sets the status to
  \<open>stopped\<close>; then the status request resolves with \<open>generating\<close>. \<open>fetchStatus\<close> stores the
  status it received, whatever happened meanwhile: the page ends with status
  \<open>generating\<close>, on the progress screen.
\<close>

theorem stop_overridden_counterexample:
  "generationStatus
     (run [Settle 0 (Reload (Resolved ())), OpenStopDialog, ConfirmStop,
           StopSettles (Resolved ())] (mount None)) = ''stopped''
   \<and> polls
     (run [Settle 0 (Reload (Resolved ())), OpenStopDialog, ConfirmStop,
           StopSettles (Resolved ())] (mount None)) = [Some AwaitStatus]
   \<and> generationStatus
     (run [Settle 0 (Reload (Resolved ())), OpenStopDialog, ConfirmStop,
           StopSettles (Resolved ()),
           Settle 0 (Status (Resolved (Some (status_only ''generating''))))] (mount None))
     = ''generating''
   \<and> render
     (run [Settle 0 (Reload (Resolved ())), OpenStopDialog, ConfirmStop,
           StopSettles (Resolved ()),
           Settle 0 (Status (Resolved (Some (status_only ''generating''))))] (mount None))
     = ProgressScreen"
  by code_simp

text \<open>
  C1, amended. When \<open>stopTask\<close> resolves, the status is \<open>stopped\<close> at that moment. A
  status request that was outstanding and resolves with a payload afterwards replaces it
  by the status of the payload.
\<close>

theorem stop_success_then_late_status:
  assumes "0 < stopsInFlight s" and "i < length (polls s)" and "polls s ! i = Some AwaitStatus"
  shows "generationStatus (step (StopSettles (Resolved ())) s) = ''stopped''
    \<and> generationStatus
        (run [StopSettles (Resolved ()), Settle i (Status (Resolved (Some sd)))] s)
      = sp_status sd"
proof -
  let ?t = "step (StopSettles (Resolved ())) s"
  have t: "generationStatus ?t = ''stopped''" and p: "polls ?t = polls s"
    using assms(1) by (simp_all add: after_stop_def)
  have "generationStatus (settle i (Status (Resolved (Some sd))) ?t) = sp_status sd"
    unfolding settle_def using assms(2,3) p
    by (simp add: resume_def split_beta generationStatus_after_status)
  with t show ?thesis by simp
qed

theorem stop_success_then_late_status_witness:
  "0 < stopsInFlight (run [OpenStopDialog, ConfirmStop] awaiting_status)
   \<and> 0 < length (polls (run [OpenStopDialog, ConfirmStop] awaiting_status))
   \<and> polls (run [OpenStopDialog, ConfirmStop] awaiting_status) ! 0 = Some AwaitStatus
   \<and> generationStatus
        (step (StopSettles (Resolved ())) (run [OpenStopDialog, ConfirmStop] awaiting_status))
      = ''stopped''
   \<and> generationStatus
        (run [StopSettles (Resolved ()),
              Settle 0 (Status (Resolved (Some (status_only ''pending''))))]
           (run [OpenStopDialog, ConfirmStop] awaiting_status))
      = sp_status (status_only ''pending'')"
proof -
  let ?s = "run [OpenStopDialog, ConfirmStop] awaiting_status"
  have h1: "0 < stopsInFlight ?s" by code_simp
  have h2: "0 < length (polls ?s)" by code_simp
  have h3: "polls ?s ! 0 = Some AwaitStatus" by code_simp
  show ?thesis
    using h1 h2 h3 stop_success_then_late_status [OF h1 h2 h3, of "status_only ''pending''"]
    by blast
qed

section \<open>Leaving a final status\<close>











section \<open>Status \<open>completed\<close> without a result\<close>

text \<open>
  C3, as the specification states it, fails. The status payload says \<open>completed\<close> and the
  result payload has no \<open>result\<close>. \<open>fetchStatus\<close> has stored the status before it asks
  for the result, so the status is \<open>completed\<close>, not \<open>generating\<close>, and the page shows the
  result view; \<open>pollCount\<close> is still 0.
\<close>

theorem completed_without_result_counterexample:
  "generationStatus
     (run [Settle 0 (Reload (Resolved ())),
           Settle 0 (Status (Resolved (Some (status_only ''completed'')))),
           Settle 0 (Result (Resolved (Some (result_only None))))] (mount None)) = ''completed''
   \<and> render
     (run [Settle 0 (Reload (Resolved ())),
           Settle 0 (Status (Resolved (Some (status_only ''completed'')))),
           Settle 0 (Result (Resolved (Some (result_only None))))] (mount None)) = ResultScreen
   \<and> pollCount
     (run [Settle 0 (Reload (Resolved ())),
           Settle 0 (Status (Resolved (Some (status_only ''completed'')))),
           Settle 0 (Result (Resolved (Some (result_only None))))] (mount None)) = 0"
  by code_simp

text \<open>
  C3, amended. When the status request of a \<open>fetchStatus\<close> call resolves with
  \<open>completed\<close> and its result request resolves without a usable result, the call returns
  with the status \<open>completed\<close> and the progress 100, and with the result, the error
  message, \<open>loading\<close> and the interval timer as they were: the timer is not cleared, so
  the next poll comes with the next tick.
\<close>

theorem completed_without_result_keeps_polling:
  assumes "sp_status sd = ''completed''" and "\<not> usable rd"
    and "i < length (polls s)" and "polls s ! i = Some AwaitStatus"
  shows "generationStatus (run [Settle i (Status (Resolved (Some sd))),
                               Settle i (Result (Resolved rd))] s) = ''completed''
    \<and> progress (run [Settle i (Status (Resolved (Some sd))),
                      Settle i (Result (Resolved rd))] s) = 100
    \<and> result (run [Settle i (Status (Resolved (Some sd))),
                    Settle i (Result (Resolved rd))] s) = result s
    \<and> error (run [Settle i (Status (Resolved (Some sd))),
                   Settle i (Result (Resolved rd))] s) = error s
    \<and> loading (run [Settle i (Status (Resolved (Some sd))),
                     Settle i (Result (Resolved rd))] s) = loading s
    \<and> pollInterval (run [Settle i (Status (Resolved (Some sd))),
                          Settle i (Result (Resolved rd))] s) = pollInterval s
    \<and> polls (run [Settle i (Status (Resolved (Some sd))),
                   Settle i (Result (Resolved rd))] s) = (polls s)[i := None]"
proof -
  let ?t = "settle i (Status (Resolved (Some sd))) s"
  have t: "?t = resume i (after_status (Resolved (Some sd)) s)"
    using assms(3,4) by (simp add: settle_def)
  have pt: "polls ?t = (polls s)[i := Some AwaitResult]"
    using assms(1) unfolding t by (simp add: resume_def piece_defs)
  have u: "settle i (Result (Resolved rd)) ?t = resume i (after_result (Resolved rd) ?t)"
    using assms(3) pt by (simp add: settle_def)
  have v: "after_result (Resolved rd) ?t = (?t, None)"
    using assms(2) by (simp add: after_result_def)
  have w: "settle i (Result (Resolved rd)) ?t = ?t\<lparr>polls := (polls s)[i := None]\<rparr>"
    unfolding u v using pt by (simp add: resume_def)
  have f: "generationStatus ?t = ''completed''" "progress ?t = 100" "result ?t = result s"
    "error ?t = error s" "loading ?t = loading s" "pollInterval ?t = pollInterval s"
    using assms(1) unfolding t by (simp_all add: resume_def piece_defs)
  show ?thesis using f by (simp add: w)
qed

theorem completed_without_result_keeps_polling_witness:
  "sp_status (status_only ''completed'') = ''completed''
   \<and> \<not> usable (Some (result_only None))
   \<and> 0 < length (polls awaiting_status)
   \<and> polls awaiting_status ! 0 = Some AwaitStatus
   \<and> generationStatus
        (run [Settle 0 (Status (Resolved (Some (status_only ''completed'')))),
              Settle 0 (Result (Resolved (Some (result_only None))))] awaiting_status)
       = ''completed''
   \<and> pollInterval
        (run [Settle 0 (Status (Resolved (Some (status_only ''completed'')))),
              Settle 0 (Result (Resolved (Some (result_only None))))] awaiting_status)
       = pollInterval awaiting_status
   \<and> pollInterval awaiting_status"
proof -
  have h1: "sp_status (status_only ''completed'') = ''completed''" by code_simp
  have h2: "\<not> usable (Some (result_only None))" by code_simp
  have h3: "0 < length (polls awaiting_status)" by code_simp
  have h4: "polls awaiting_status ! 0 = Some AwaitStatus" by code_simp
  have h5: "pollInterval awaiting_status" by code_simp
  show ?thesis
    using h1 h2 h3 h4 h5 completed_without_result_keeps_polling [OF h1 h2 h3 h4]
    by blast
qed


section \<open>Two stop requests\<close>

text \<open>
  \<open>handleStopGeneration\<close> does not look at \<open>stopInProgress\<close> itself. It is called by the
  confirm button of the dialog only, and the button is disabled while \<open>stopInProgress\<close>,
  which the handler sets before it calls \<open>stopTask\<close> and which only the \<open>finally\<close>
  callback of the settled promise clears. No piece of \<open>fetchStatus\<close> touches
  \<open>stopInProgress\<close>, the number of open \<open>stopTask\<close> promises or the \<open>stopTask\<close> calls made.
\<close>

lemma stop_frame_fetchStatus:
  "stopInProgress (fst (fetchStatus s)) = stopInProgress s
   \<and> stopsInFlight (fst (fetchStatus s)) = stopsInFlight s
   \<and> stop_calls (fst (fetchStatus s)) = stop_calls s"
  by (simp add: stop_calls_def piece_defs)

lemma stop_frame_after_reload:
  "stopInProgress (fst (after_reload r s)) = stopInProgress s
   \<and> stopsInFlight (fst (after_reload r s)) = stopsInFlight s
   \<and> stop_calls (fst (after_reload r s)) = stop_calls s"
  by (simp add: stop_calls_def piece_defs split: outcome.splits)

lemma stop_frame_after_status:
  "stopInProgress (fst (after_status r s)) = stopInProgress s
   \<and> stopsInFlight (fst (after_status r s)) = stopsInFlight s
   \<and> stop_calls (fst (after_status r s)) = stop_calls s"
  by (simp add: stop_calls_def piece_defs split: outcome.splits option.splits)

lemma stop_frame_after_result:
  "stopInProgress (fst (after_result r s)) = stopInProgress s
   \<and> stopsInFlight (fst (after_result r s)) = stopsInFlight s
   \<and> stop_calls (fst (after_result r s)) = stop_calls s"
  by (simp add: stop_calls_def piece_defs split: outcome.splits option.splits)

lemma stop_frame_after_direct:
  "stopInProgress (fst (after_direct m r s)) = stopInProgress s
   \<and> stopsInFlight (fst (after_direct m r s)) = stopsInFlight s
   \<and> stop_calls (fst (after_direct m r s)) = stop_calls s"
  by (simp add: stop_calls_def piece_defs split: outcome.splits option.splits)

lemma stop_frame_resume:
  "stopInProgress (resume i p) = stopInProgress (fst p)
   \<and> stopsInFlight (resume i p) = stopsInFlight (fst p)
   \<and> stop_calls (resume i p) = stop_calls (fst p)"
  by (cases p) (simp add: stop_calls_def resume_def)

lemma stop_frame_settle:
  "stopInProgress (settle i r s) = stopInProgress s
   \<and> stopsInFlight (settle i r s) = stopsInFlight s
   \<and> stop_calls (settle i r s) = stop_calls s"
  unfolding settle_def
  by (simp add: stop_frame_resume stop_frame_after_reload stop_frame_after_status
      stop_frame_after_result stop_frame_after_direct
      split: option.splits suspended.splits response.splits)

lemma stop_frame_start:
  "stopInProgress (start s) = stopInProgress s
   \<and> stopsInFlight (start s) = stopsInFlight s
   \<and> stop_calls (start s) = stop_calls s"
  using stop_frame_fetchStatus [of s] by (simp add: start_def stop_calls_def split_beta)

text \<open>A \<open>stopTask\<close> promise is open exactly while \<open>stopInProgress\<close> is set, and then there
  is one.\<close>

lemma one_stop_step:
  assumes "stopsInFlight s = (if stopInProgress s then 1 else 0)"
  shows "stopsInFlight (step e s) = (if stopInProgress (step e s) then 1 else 0)"
proof (cases e)
  case Tick
  then show ?thesis using assms by (simp add: stop_frame_start)
next
  case (Settle i r)
  then show ?thesis using assms by (simp add: stop_frame_settle)
next
  case OpenStopDialog
  then show ?thesis using assms by simp
next
  case CloseStopDialog
  then show ?thesis using assms by simp
next
  case ConfirmStop
  then show ?thesis using assms by (simp add: handleStopGeneration_def call_def)
next
  case (StopSettles r)
  then show ?thesis using assms by (simp add: after_stop_def split: outcome.splits)
qed

lemma one_stop_run:
  "stopsInFlight s = (if stopInProgress s then 1 else 0) \<Longrightarrow>
   stopsInFlight (run es s) = (if stopInProgress (run es s) then 1 else 0)"
  by (induction es arbitrary: s) (simp_all add: one_stop_step)

lemma one_stop_mount:
  "stopsInFlight (mount d) = (if stopInProgress (mount d) then 1 else 0)"
  by (simp add: mount_def start_def piece_defs)

text \<open>While \<open>stopInProgress\<close> is set, no event but the settling of the promise clears it or
  makes a \<open>stopTask\<close> call.\<close>

lemma in_progress_step:
  assumes "stopInProgress s" and "\<not> stop_settles e"
  shows "stopInProgress (step e s) \<and> stop_calls (step e s) = stop_calls s
    \<and> stopsInFlight (step e s) = stopsInFlight s"
proof (cases e)
  case Tick
  then show ?thesis using assms by (simp add: stop_frame_start)
next
  case (Settle i r)
  then show ?thesis using assms by (simp add: stop_frame_settle)
next
  case OpenStopDialog
  then show ?thesis using assms by (simp add: stop_calls_def)
next
  case CloseStopDialog
  then show ?thesis using assms by (simp add: stop_calls_def)
next
  case ConfirmStop
  then show ?thesis using assms by simp
next
  case (StopSettles r)
  then show ?thesis using assms by simp
qed

lemma in_progress_run:
  "stopInProgress s \<Longrightarrow> list_all (\<lambda>e. \<not> stop_settles e) es \<Longrightarrow>
   stopInProgress (run es s) \<and> stop_calls (run es s) = stop_calls s
     \<and> stopsInFlight (run es s) = stopsInFlight s"
proof (induction es arbitrary: s)
  case Nil
  then show ?case by simp
next
  case (Cons e es)
  then show ?case using in_progress_step [of s e] by simp
qed

text \<open>
  C4. In every state the page can reach, at most one \<open>stopTask\<close> promise is open, and
  while one is open pressing the confirm button changes nothing. Where the button can be
  pressed, pressing it makes one \<open>stopTask\<close> call, and pressing it again, after any events
  among which the promise does not settle, makes no second call: one call in all, one
  promise open.
\<close>

theorem stop_in_flight_confirm_noop:
  "stopsInFlight (run es (mount d)) \<le> 1
   \<and> (0 < stopsInFlight (run es (mount d))
        \<longrightarrow> step ConfirmStop (run es (mount d)) = run es (mount d))
   \<and> (render s = ProgressScreen \<and> stopConfirmOpen s \<and> \<not> stopInProgress s
        \<and> list_all (\<lambda>e. \<not> stop_settles e) between
        \<longrightarrow> stop_calls (step ConfirmStop s) = stop_calls s + 1
          \<and> stop_calls (run (ConfirmStop # between @ [ConfirmStop]) s) = stop_calls s + 1
          \<and> stopsInFlight (run (ConfirmStop # between @ [ConfirmStop]) s)
              = stopsInFlight s + 1)"
proof -
  let ?t = "run es (mount d)"
  have inv: "stopsInFlight ?t = (if stopInProgress ?t then 1 else 0)"
    using one_stop_run [OF one_stop_mount] .
  have a: "stopsInFlight ?t \<le> 1" using inv by simp
  have b: "0 < stopsInFlight ?t \<longrightarrow> step ConfirmStop ?t = ?t"
    using inv by (simp split: if_splits)
  have c: "stop_calls (step ConfirmStop s) = stop_calls s + 1
      \<and> stop_calls (run (ConfirmStop # between @ [ConfirmStop]) s) = stop_calls s + 1
      \<and> stopsInFlight (run (ConfirmStop # between @ [ConfirmStop]) s) = stopsInFlight s + 1"
    if h: "render s = ProgressScreen" "stopConfirmOpen s" "\<not> stopInProgress s"
      "list_all (\<lambda>e. \<not> stop_settles e) between"
  proof -
    let ?u = "step ConfirmStop s"
    have u: "stopInProgress ?u" "stop_calls ?u = stop_calls s + 1"
      "stopsInFlight ?u = stopsInFlight s + 1"
      using h(1-3) by (simp_all add: handleStopGeneration_def call_def stop_calls_def)
    have v: "stopInProgress (run between ?u)" "stop_calls (run between ?u) = stop_calls ?u"
      "stopsInFlight (run between ?u) = stopsInFlight ?u"
      using in_progress_run [OF u(1) h(4)] by simp_all
    have w: "step ConfirmStop (run between ?u) = run between ?u"
      using v(1) by simp
    have "run (ConfirmStop # between @ [ConfirmStop]) s = run between ?u"
      using w by (simp add: run_append)
    then show ?thesis using u v by simp
  qed
  from a b c show ?thesis by blast
qed

theorem stop_in_flight_confirm_noop_witness:
  "0 < stopsInFlight
         (run [Settle 0 (Reload (Resolved ())), OpenStopDialog, ConfirmStop] (mount None))
   \<and> step ConfirmStop
         (run [Settle 0 (Reload (Resolved ())), OpenStopDialog, ConfirmStop] (mount None))
       = run [Settle 0 (Reload (Resolved ())), OpenStopDialog, ConfirmStop] (mount None)
   \<and> render (step OpenStopDialog awaiting_status) = ProgressScreen
   \<and> stopConfirmOpen (step OpenStopDialog awaiting_status)
   \<and> \<not> stopInProgress (step OpenStopDialog awaiting_status)
   \<and> list_all (\<lambda>e. \<not> stop_settles e)
        [Tick, ConfirmStop, Settle 0 (Status (Resolved (Some (status_only ''generating''))))]
   \<and> stop_calls
        (run (ConfirmStop #
              [Tick, ConfirmStop,
               Settle 0 (Status (Resolved (Some (status_only ''generating''))))]
              @ [ConfirmStop])
           (step OpenStopDialog awaiting_status))
       = stop_calls (step OpenStopDialog awaiting_status) + 1"
proof -
  let ?es = "[Settle 0 (Reload (Resolved ())), OpenStopDialog, ConfirmStop]"
  let ?s = "step OpenStopDialog awaiting_status"
  let ?b = "[Tick, ConfirmStop, Settle 0 (Status (Resolved (Some (status_only ''generating''))))]"
  have h0: "0 < stopsInFlight (run ?es (mount None))" by code_simp
  have h1: "render ?s = ProgressScreen" by code_simp
  have h2: "stopConfirmOpen ?s" by code_simp
  have h3: "\<not> stopInProgress ?s" by code_simp
  have h4: "list_all (\<lambda>e. \<not> stop_settles e) ?b" by simp
  show ?thesis
    using h0 h1 h2 h3 h4
      stop_in_flight_confirm_noop [where es = ?es and d = None and s = ?s and between = ?b]
    by blast
qed

section \<open>Calls outstanding at the same time\<close>

text \<open>
  C8, as the specification states it, fails. \<open>setInterval\<close> calls \<open>fetchStatus\<close> at every
  tick, and \<open>fetchStatus\<close> does not know of earlier calls. A tick that comes while the
  first \<open>reloadTasks\<close> is outstanding starts a second \<open>fetchStatus\<close>, which calls
  \<open>reloadTasks\<close> again: two calls are outstanding.
\<close>

theorem tick_during_fetch_counterexample:
  "polls (mount None) = [Some AwaitReload]
   \<and> outstanding (mount None) = 1
   \<and> polls (step Tick (mount None)) = [Some AwaitReload, Some AwaitReload]
   \<and> network (step Tick (mount None)) = [ReloadTasks, ReloadTasks]
   \<and> outstanding (step Tick (mount None)) = 2"
  by code_simp

lemma filter_update_le:
  "i < length xs \<Longrightarrow> P (xs ! i) \<Longrightarrow> length (filter P (xs[i := y])) \<le> length (filter P xs)"
proof (induction xs arbitrary: i)
  case Nil
  then show ?case by simp
next
  case (Cons x xs)
  then show ?case by (cases i) auto
qed

lemma outstanding_resume:
  assumes "polls (fst p) = polls s" and "stopsInFlight (fst p) = stopsInFlight s"
    and "i < length (polls s)" and "polls s ! i \<noteq> None"
  shows "outstanding (resume i p) \<le> outstanding s"
  using assms filter_update_le [of i "polls s" "\<lambda>k. k \<noteq> None" "snd p"]
  by (cases p) (simp add: outstanding_def resume_def)

lemma outstanding_settle: "outstanding (settle i r s) \<le> outstanding s"
  unfolding settle_def
  by (auto split: option.splits suspended.splits response.splits
      intro!: outstanding_resume
      simp: polls_after_reload polls_after_status polls_after_result polls_after_direct
        stopsInFlight_after_reload stopsInFlight_after_status stopsInFlight_after_result
        stopsInFlight_after_direct)

text \<open>
  C8, amended. Each \<open>fetchStatus\<close> call waits for one backend call at a time, and a call
  that settles never adds to the calls outstanding; but while the timer is set, every tick
  starts a new \<open>fetchStatus\<close> with a backend call of its own, whatever is outstanding.
\<close>

theorem tick_always_starts_fetch:
  assumes "pollInterval s"
  shows "polls (step Tick s)
        = polls s @ [Some (if pollCount s = 0 then AwaitReload else AwaitStatus)]
    \<and> outstanding (step Tick s) = outstanding s + 1
    \<and> outstanding (step (Settle i r) s) \<le> outstanding s"
  using assms outstanding_settle [of i r s]
  by (simp add: start_def outstanding_def piece_defs)

theorem tick_always_starts_fetch_witness:
  "pollInterval (mount None)
   \<and> outstanding (step Tick (mount None)) = outstanding (mount None) + 1"
proof -
  have h: "pollInterval (mount None)" by code_simp
  show ?thesis using h tick_always_starts_fetch [OF h] by blast
qed

section \<open>The direct fetch after a failure\<close>

text \<open>
  What the \<open>catch\<close> block does. While \<open>pollCount\<close> is 0, a rejected status request makes
  \<open>fetchStatus\<close> request the result directly, and a usable result ends the session with
  the status \<open>completed\<close>, the result stored and the error message untouched. Once
  \<open>pollCount\<close> is positive, a rejected status request ends the session with the error
  message and no further call.
\<close>

lemma first_failure_falls_back:
  assumes "pollCount s = 0" and "i < length (polls s)" and "polls s ! i = Some AwaitStatus"
    and "usable rd"
  shows "network (step (Settle i (Status (Rejected m))) s) = network s @ [GetGenerationResult]
    \<and> generationStatus (run [Settle i (Status (Rejected m)), Settle i (Result (Resolved rd))] s)
        = ''completed''
    \<and> result (run [Settle i (Status (Rejected m)), Settle i (Result (Resolved rd))] s)
        = rp_result (the rd)
    \<and> progress (run [Settle i (Status (Rejected m)), Settle i (Result (Resolved rd))] s) = 100
    \<and> error (run [Settle i (Status (Rejected m)), Settle i (Result (Resolved rd))] s) = error s
    \<and> \<not> pollInterval (run [Settle i (Status (Rejected m)), Settle i (Result (Resolved rd))] s)
    \<and> \<not> loading (run [Settle i (Status (Rejected m)), Settle i (Result (Resolved rd))] s)"
proof -
  let ?t = "settle i (Status (Rejected m)) s"
  have t: "?t = resume i (after_status (Rejected m) s)"
    using assms(2,3) by (simp add: settle_def)
  have pt: "polls ?t = (polls s)[i := Some (AwaitDirect m)]"
    using assms(1) unfolding t by (simp add: resume_def piece_defs)
  have u: "settle i (Result (Resolved rd)) ?t = resume i (after_direct m (Resolved rd) ?t)"
    using assms(2) pt by (simp add: settle_def)
  have f: "network ?t = network s @ [GetGenerationResult]" "error ?t = error s"
    using assms(1) unfolding t by (simp_all add: resume_def piece_defs)
  show ?thesis
    using assms(4) f unfolding run.simps step.simps u
    by (simp add: resume_def after_direct_def Let_def)
qed

lemma later_failure_gives_up:
  assumes "0 < pollCount s" and "i < length (polls s)" and "polls s ! i = Some AwaitStatus"
  shows "network (step (Settle i (Status (Rejected m))) s) = network s
    \<and> polls (step (Settle i (Status (Rejected m))) s) = (polls s)[i := None]
    \<and> error (step (Settle i (Status (Rejected m))) s)
        = ''Error checking generation status: '' @ or_else m ''Unknown error''
    \<and> \<not> pollInterval (step (Settle i (Status (Rejected m))) s)
    \<and> \<not> loading (step (Settle i (Status (Rejected m))) s)"
  using assms by (simp add: settle_def resume_def piece_defs)

text \<open>
  C7. The comment in the \<open>catch\<close> block says "if this is the first attempt", and the test
  is \<open>pollCount === 0\<close>; but \<open>pollCount\<close> is advanced only by a poll that finds the job
  still processing. Here the first poll gets \<open>completed\<close> and a result payload without a
  \<open>result\<close>, so \<open>pollCount\<close> stays 0. The status request of the second poll is rejected:
  the page requests the result directly, and with a usable result it ends with the status
  \<open>completed\<close>, the result stored and no error message, where the claim has it end in an
  error without the fallback.
\<close>

theorem fallback_on_second_poll:
  "pollCount
     (run [Settle 0 (Reload (Resolved ())),
           Settle 0 (Status (Resolved (Some (status_only ''completed'')))),
           Settle 0 (Result (Resolved (Some (result_only None))))] (mount None)) = 0
   \<and> polls
     (run [Settle 0 (Reload (Resolved ())),
           Settle 0 (Status (Resolved (Some (status_only ''completed'')))),
           Settle 0 (Result (Resolved (Some (result_only None)))),
           Tick, Settle 1 (Reload (Resolved ())),
           Settle 1 (Status (Rejected (Some ''Network Error'')))] (mount None))
     = [None, Some (AwaitDirect (Some ''Network Error''))]
   \<and> network
     (run [Settle 0 (Reload (Resolved ())),
           Settle 0 (Status (Resolved (Some (status_only ''completed'')))),
           Settle 0 (Result (Resolved (Some (result_only None)))),
           Tick, Settle 1 (Reload (Resolved ())),
           Settle 1 (Status (Rejected (Some ''Network Error'')))] (mount None))
     = [ReloadTasks, GetGenerationStatus, GetGenerationResult,
        ReloadTasks, GetGenerationStatus, GetGenerationResult]
   \<and> generationStatus
     (run [Settle 0 (Reload (Resolved ())),
           Settle 0 (Status (Resolved (Some (status_only ''completed'')))),
           Settle 0 (Result (Resolved (Some (result_only None)))),
           Tick, Settle 1 (Reload (Resolved ())),
           Settle 1 (Status (Rejected (Some ''Network Error''))),
           Settle 1 (Result (Resolved (Some (result_only (Some ''text'')))))] (mount None))
     = ''completed''
   \<and> result
     (run [Settle 0 (Reload (Resolved ())),
           Settle 0 (Status (Resolved (Some (status_only ''completed'')))),
           Settle 0 (Result (Resolved (Some (result_only None)))),
           Tick, Settle 1 (Reload (Resolved ())),
           Settle 1 (Status (Rejected (Some ''Network Error''))),
           Settle 1 (Result (Resolved (Some (result_only (Some ''text'')))))] (mount None))
     = Some ''text''
   \<and> error
     (run [Settle 0 (Reload (Resolved ())),
           Settle 0 (Status (Resolved (Some (status_only ''completed'')))),
           Settle 0 (Result (Resolved (Some (result_only None)))),
           Tick, Settle 1 (Reload (Resolved ())),
           Settle 1 (Status (Rejected (Some ''Network Error''))),
           Settle 1 (Result (Resolved (Some (result_only (Some ''text'')))))] (mount None))
     = []"
  by code_simp

section \<open>The reload before the first status request\<close>

lemma after_reload_Rejected:
  "after_reload (Rejected m) s
     = (console_log ''Failed to reload tasks:'' (fst (after_reload (Resolved ()) s)),
        Some AwaitStatus)"
  by (simp add: after_reload_def call_def console_log_def)

lemma catch_block_console:
  "snd (catch_block m (s\<lparr>console := c\<rparr>)) = snd (catch_block m s)
   \<and> (fst (catch_block m (s\<lparr>console := c\<rparr>)))\<lparr>console := c'\<rparr>
       = (fst (catch_block m s))\<lparr>console := c'\<rparr>"
  by (simp add: catch_block_def give_up_def call_def console_log_def Let_def)

lemma after_status_console:
  "snd (after_status r (s\<lparr>console := c\<rparr>)) = snd (after_status r s)
   \<and> (fst (after_status r (s\<lparr>console := c\<rparr>)))\<lparr>console := c'\<rparr>
       = (fst (after_status r s))\<lparr>console := c'\<rparr>"
proof (cases r)
  case (Rejected m)
  then show ?thesis using catch_block_console by (simp add: after_status_def)
next
  case (Resolved x)
  show ?thesis
  proof (cases x)
    case None
    then show ?thesis using Resolved by (simp add: after_status_def)
  next
    case (Some sd)
    then show ?thesis using Resolved by (simp add: after_status_def call_def Let_def)
  qed
qed

text \<open>
  C9. The first \<open>fetchStatus\<close> of a session calls \<open>reloadTasks\<close> and nothing else before
  it waits; the status is requested once \<open>reloadTasks\<close> has settled. If \<open>reloadTasks\<close> is
  rejected, the page logs a warning and goes on as after a success: no error message,
  the timer still set, the status request made; and whatever the status request settles
  with, \<open>fetchStatus\<close> continues the same way and leaves the same page, the console
  apart. This holds for every \<open>fetchStatus\<close> that starts while \<open>pollCount\<close> is 0.
\<close>

theorem reload_failure_absorbed:
  assumes "pollCount s = 0"
  shows "network (mount d) = [ReloadTasks] \<and> polls (mount d) = [Some AwaitReload]
    \<and> network (step (Settle 0 (Reload (Rejected m))) (mount d))
        = [ReloadTasks, GetGenerationStatus]
    \<and> polls (step (Settle 0 (Reload (Rejected m))) (mount d)) = [Some AwaitStatus]
    \<and> error (step (Settle 0 (Reload (Rejected m))) (mount d)) = []
    \<and> pollInterval (step (Settle 0 (Reload (Rejected m))) (mount d))
    \<and> fetchStatus s = (call ReloadTasks (s\<lparr>loading := True\<rparr>), Some AwaitReload)
    \<and> snd (after_reload (Rejected m) s) = Some AwaitStatus
    \<and> network (fst (after_reload (Rejected m) s)) = network s @ [GetGenerationStatus]
    \<and> fst (after_reload (Rejected m) s)
        = console_log ''Failed to reload tasks:'' (fst (after_reload (Resolved ()) s))
    \<and> error (fst (after_reload (Rejected m) s)) = error s
    \<and> pollInterval (fst (after_reload (Rejected m) s)) = pollInterval s
    \<and> generationStatus (fst (after_reload (Rejected m) s)) = generationStatus s
    \<and> snd (after_status r (fst (after_reload (Rejected m) s)))
        = snd (after_status r (fst (after_reload (Resolved ()) s)))
    \<and> (fst (after_status r (fst (after_reload (Rejected m) s))))\<lparr>console := c\<rparr>
        = (fst (after_status r (fst (after_reload (Resolved ()) s))))\<lparr>console := c\<rparr>"
proof -
  have first: "network (mount d) = [ReloadTasks]" "polls (mount d) = [Some AwaitReload]"
    "network (step (Settle 0 (Reload (Rejected m))) (mount d))
       = [ReloadTasks, GetGenerationStatus]"
    "polls (step (Settle 0 (Reload (Rejected m))) (mount d)) = [Some AwaitStatus]"
    "error (step (Settle 0 (Reload (Rejected m))) (mount d)) = []"
    "pollInterval (step (Settle 0 (Reload (Rejected m))) (mount d))"
    by (simp_all add: mount_def start_def settle_def resume_def piece_defs)
  have start: "fetchStatus s = (call ReloadTasks (s\<lparr>loading := True\<rparr>), Some AwaitReload)"
    using assms by (simp add: fetchStatus_def)
  have kept: "network (fst (after_reload (Rejected m) s)) = network s @ [GetGenerationStatus]"
    "error (fst (after_reload (Rejected m) s)) = error s"
    "pollInterval (fst (after_reload (Rejected m) s)) = pollInterval s"
    "generationStatus (fst (after_reload (Rejected m) s)) = generationStatus s"
    by (simp_all add: after_reload_def call_def console_log_def)
  have logged: "fst (after_reload (Rejected m) s)
      = (fst (after_reload (Resolved ()) s))
          \<lparr>console := console (fst (after_reload (Resolved ()) s))
                        @ [''Failed to reload tasks:'']\<rparr>"
    by (simp add: after_reload_Rejected console_log_def)
  have same: "snd (after_status r (fst (after_reload (Rejected m) s)))
        = snd (after_status r (fst (after_reload (Resolved ()) s)))"
    "(fst (after_status r (fst (after_reload (Rejected m) s))))\<lparr>console := c\<rparr>
        = (fst (after_status r (fst (after_reload (Resolved ()) s))))\<lparr>console := c\<rparr>"
    unfolding logged using after_status_console by blast+
  from first start kept same show ?thesis by (simp add: after_reload_Rejected)
qed

theorem reload_failure_absorbed_witness:
  "pollCount (mount None) = 0
   \<and> fetchStatus (mount None)
       = (call ReloadTasks ((mount None)\<lparr>loading := True\<rparr>), Some AwaitReload)
   \<and> error (fst (after_reload (Rejected (Some ''Network Error'')) (mount None)))
       = error (mount None)
   \<and> pollInterval (fst (after_reload (Rejected (Some ''Network Error'')) (mount None)))
       = pollInterval (mount None)
   \<and> snd (after_reload (Rejected (Some ''Network Error'')) (mount None)) = Some AwaitStatus"
proof -
  have h: "pollCount (mount None) = 0" by code_simp
  show ?thesis
    using h reload_failure_absorbed [OF h, of None "Some ''Network Error''"]
    by blast
qed

section \<open>Updating the generation details\<close>

lemma generationDetails_after_status:
  "generationDetails (fst (after_status (Resolved (Some sd)) s))
     = updateDetails (sp_model sd) (sp_searchEngine sd) (sp_prompt sd) (generationDetails s)"
  by (simp add: piece_defs)

lemma generationDetails_after_result:
  "usable (Some rd) \<Longrightarrow>
   generationDetails (fst (after_result (Resolved (Some rd)) s))
     = updateDetails (rp_model rd) (rp_searchEngine rd) (rp_prompt rd) (generationDetails s)"
  by (simp add: piece_defs)

lemma generationDetails_after_direct:
  "usable (Some rd) \<Longrightarrow>
   generationDetails (fst (after_direct e (Resolved (Some rd)) s))
     = updateDetails (rp_model rd) (rp_searchEngine rd) (rp_prompt rd) (generationDetails s)"
  by (simp add: piece_defs)

text \<open>
  C10. A payload whose \<open>model\<close> is the string \<open>unknown\<close> updates the details exactly as a
  payload without \<open>model\<close>: the model known before is kept. The search engine and the
  prompt are overwritten if and only if the payload has them non-empty. These are the
  updates made after a status payload, after a usable result payload of the \<open>completed\<close>
  branch, and after a usable result payload of the direct fetch.
\<close>

theorem unknown_model_ignored:
  "updateDetails (Some ''unknown'') se p prev = updateDetails None se p prev
   \<and> d_model (updateDetails (Some ''unknown'') se p prev) = d_model prev
   \<and> d_model (updateDetails None se p prev) = d_model prev
   \<and> d_searchEngine (updateDetails m se p prev) = (if truthy se then se else d_searchEngine prev)
   \<and> d_prompt (updateDetails m se p prev) = (if truthy p then p else d_prompt prev)
   \<and> generationDetails (fst (after_status (Resolved (Some sd)) s))
       = updateDetails (sp_model sd) (sp_searchEngine sd) (sp_prompt sd) (generationDetails s)
   \<and> (usable (Some rd) \<longrightarrow>
        generationDetails (fst (after_result (Resolved (Some rd)) s))
          = updateDetails (rp_model rd) (rp_searchEngine rd) (rp_prompt rd) (generationDetails s)
        \<and> generationDetails (fst (after_direct e (Resolved (Some rd)) s))
          = updateDetails (rp_model rd) (rp_searchEngine rd) (rp_prompt rd) (generationDetails s))"
proof -
  have a: "updateDetails (Some ''unknown'') se p prev = updateDetails None se p prev"
    and b: "d_model (updateDetails (Some ''unknown'') se p prev) = d_model prev"
    and c: "d_model (updateDetails None se p prev) = d_model prev"
    and d: "d_searchEngine (updateDetails m se p prev)
              = (if truthy se then se else d_searchEngine prev)"
    and e: "d_prompt (updateDetails m se p prev) = (if truthy p then p else d_prompt prev)"
    by (simp_all add: updateDetails_def)
  from a b c d e show ?thesis
    using generationDetails_after_status generationDetails_after_result
      generationDetails_after_direct
    by blast
qed

theorem unknown_model_ignored_witness:
  "usable (Some \<lparr>rp_result = Some ''text'', rp_model = Some ''unknown'',
                  rp_searchEngine = Some ''google'', rp_prompt = None\<rparr>)
   \<and> generationDetails
        (fst (after_result
               (Resolved (Some \<lparr>rp_result = Some ''text'', rp_model = Some ''unknown'',
                                 rp_searchEngine = Some ''google'', rp_prompt = None\<rparr>))
               awaiting_status))
      = updateDetails (Some ''unknown'') (Some ''google'') None (generationDetails awaiting_status)
   \<and> d_model (updateDetails (Some ''unknown'') (Some ''google'') None
                 (generationDetails awaiting_status))
      = d_model (generationDetails awaiting_status)"
proof -
  let ?rd = "\<lparr>rp_result = Some ''text'', rp_model = Some ''unknown'',
              rp_searchEngine = Some ''google'', rp_prompt = None\<rparr>"
  have h: "usable (Some ?rd)" by simp
  show ?thesis
    using h unknown_model_ignored [where se = "Some ''google''" and p = None
        and prev = "generationDetails awaiting_status" and rd = ?rd and s = awaiting_status]
    by simp
qed

end
